theory Spec2Isabelle
  imports Main "HOL-Library.AList" "HOL-Library.Sublist"
begin

section \<open>The Graphs endpoint of graphspace-python\<close>

text \<open>
  The module \<^verbatim>\<open>graphspace_python/api/endpoint/graphs.py\<close> maps nine operations onto
  calls of \<^verbatim>\<open>client._make_request(method, path, data, url_params)\<close>. The model
  threads the list of requests issued so far (the log) through every operation, so that
  the number, the order and the content of the transport calls can be stated. An
  operation returns its Python result or the exception it raises (\<open>Inl\<close>), paired with
  the log.
\<close>

subsection \<open>JSON values and Python exceptions\<close>

text \<open>
  A JSON-decoded value. A Python dict is an association list in insertion order; numbers
  are integers (the fields read here, \<^verbatim>\<open>total\<close> and \<^verbatim>\<open>id\<close>, are integers).
\<close>

datatype jsonv =
    JNull
  | JBool bool
  | JInt int
  | JStr string
  | JList "jsonv list"
  | JObj "(string \<times> jsonv) list"

type_synonym dict = "(string \<times> jsonv) list"

datatype error =
    GraphSpaceError string
  | Exception string
  | KeyError string
  | IndexError
  | TypeError
  | AttributeError

definition bind_err :: "error + 'a \<Rightarrow> ('a \<Rightarrow> error + 'b) \<Rightarrow> error + 'b" where
  "bind_err r f = (case r of Inl e \<Rightarrow> Inl e | Inr v \<Rightarrow> f v)"

subsection \<open>Python built-ins used by the module\<close>

text \<open>\<^verbatim>\<open>str(n)\<close> for an integer: decimal digits, with a minus sign when negative.\<close>

definition digit_char :: "nat \<Rightarrow> char" where
  "digit_char d = ''0123456789'' ! d"

function str_nat :: "nat \<Rightarrow> string" where
  "str_nat n = (if n < 10 then [digit_char n] else str_nat (n div 10) @ [digit_char (n mod 10)])"
  by pat_completeness auto
termination
  by (relation "measure (\<lambda>n. n)") auto

declare str_nat.simps [simp del]

definition str :: "int \<Rightarrow> string" where
  "str i = (if i < 0 then CHR ''-'' # str_nat (nat (- i)) else str_nat (nat i))"

text \<open>
  \<^verbatim>\<open>response.get(key, default)\<close>: only a dict has \<^verbatim>\<open>get\<close>; on any other decoded
  value the attribute lookup raises.
\<close>

fun dict_get :: "jsonv \<Rightarrow> string \<Rightarrow> jsonv \<Rightarrow> error + jsonv" where
  "dict_get (JObj kvs) k d = Inr (case map_of kvs k of Some v \<Rightarrow> v | None \<Rightarrow> d)"
| "dict_get _ k d = Inl AttributeError"

text \<open>
  \<^verbatim>\<open>v > 0\<close>: integers and booleans compare with \<open>0\<close>; any other value against an
  integer raises \<^verbatim>\<open>TypeError\<close> (Python 3).
\<close>

fun gt_zero :: "jsonv \<Rightarrow> error + bool" where
  "gt_zero (JInt n) = Inr (0 < n)"
| "gt_zero (JBool b) = Inr b"
| "gt_zero _ = Inl TypeError"

text \<open>\<^verbatim>\<open>v[0]\<close> on a decoded value.\<close>

fun subscript_zero :: "jsonv \<Rightarrow> error + jsonv" where
  "subscript_zero (JList []) = Inl IndexError"
| "subscript_zero (JList (x # xs)) = Inr x"
| "subscript_zero (JStr []) = Inl IndexError"
| "subscript_zero (JStr (ch # cs)) = Inr (JStr [ch])"
| "subscript_zero (JObj kvs) = Inl (KeyError ''0'')"
| "subscript_zero _ = Inl TypeError"

text \<open>\<^verbatim>\<open>response['message']\<close>: a dict raises \<^verbatim>\<open>KeyError\<close> on a missing key; no other
  decoded value can be indexed by a string.\<close>

fun subscript_key :: "jsonv \<Rightarrow> string \<Rightarrow> error + jsonv" where
  "subscript_key (JObj kvs) k = (case map_of kvs k of Some v \<Rightarrow> Inr v | None \<Rightarrow> Inl (KeyError k))"
| "subscript_key _ k = Inl TypeError"

subsection \<open>The client, the transport and the response envelope\<close>

datatype http_method = GET | POST | PUT | DELETE

text \<open>One call of \<^verbatim>\<open>_make_request(method, path, data=None, url_params=None)\<close>.\<close>

record request =
  req_method :: http_method
  req_path :: string
  req_data :: "dict option"
  req_url_params :: "dict option"

text \<open>
  What the module reads from outside itself. \<open>username\<close> is \<^verbatim>\<open>client.username\<close>;
  \<open>transport\<close> is the behaviour of \<^verbatim>\<open>client._make_request\<close>, which may depend on
  every request issued before and either returns the decoded body or raises.
  \<open>GRAPHS_PATH\<close> is the constant imported from \<^verbatim>\<open>graphspace_python.api.config\<close>;
  \<open>APIResponse_graph r\<close> and \<open>APIResponse_graphs r\<close> are
  \<^verbatim>\<open>APIResponse('graph', r).graph\<close> and \<^verbatim>\<open>APIResponse('graph', r).graphs\<close>, and
  \<open>id_attr\<close> reads the attribute \<^verbatim>\<open>id\<close> of the resulting object, \<open>None\<close> when it
  is \<^verbatim>\<open>None\<close>. The config module and the response classes are not part of the
  endpoint module, so they are parameters: the results hold for every choice of them.
  \<open>'g\<close> is the type of the wrapped graph objects.
\<close>

record 'g env =
  username :: string
  transport :: "request list \<Rightarrow> request \<Rightarrow> error + jsonv"
  GRAPHS_PATH :: string
  APIResponse_graph :: "jsonv \<Rightarrow> error + 'g"
  APIResponse_graphs :: "jsonv \<Rightarrow> error + 'g list"
  id_attr :: "'g \<Rightarrow> int option"

text \<open>The graph argument of \<^verbatim>\<open>post_graph\<close> and \<^verbatim>\<open>update_graph\<close>: an object whose
  \<^verbatim>\<open>json()\<close> method returns a dict.\<close>

datatype gsgraph = GSGraph (json: dict)

definition make_request ::
  "'g env \<Rightarrow> http_method \<Rightarrow> string \<Rightarrow> dict option \<Rightarrow> dict option \<Rightarrow> request list
    \<Rightarrow> (error + jsonv) \<times> request list" where
  "make_request c m p d q log =
     (let r = \<lparr>req_method = m, req_path = p, req_data = d, req_url_params = q\<rparr>
      in (transport c log r, log @ [r]))"

subsection \<open>The operations\<close>

definition none_msg :: string where
  "none_msg = ''Both graph_id and name can'' @ [CHR 0x27] @ ''t be none!''"

definition doesnt_exist_msg :: "string \<Rightarrow> string \<Rightarrow> string" where
  "doesnt_exist_msg name user =
     ''Graph with name '' @ [CHR 0x60] @ name @ [CHR 0x60] @ '' doesnt exist for user '' @
     [CHR 0x60] @ user @ [CHR 0x60] @ ''!''"

definition post_graph :: "'g env \<Rightarrow> gsgraph \<Rightarrow> request list \<Rightarrow> (error + 'g) \<times> request list" where
  "post_graph c graph log =
     (let data = json graph;
          data = AList.update ''owner_email'' (JStr (username c)) data;
          (resp, log') = make_request c POST (GRAPHS_PATH c) (Some data) None log
      in (bind_err resp (APIResponse_graph c), log'))"

definition name_query :: "'g env \<Rightarrow> string \<Rightarrow> string option \<Rightarrow> dict" where
  "name_query c name owner_email =
     (let query = [(''owner_email'', JStr (case owner_email of None \<Rightarrow> username c | Some e \<Rightarrow> e)),
                   (''names[]'', JStr name)]
      in if owner_email \<noteq> None \<and> owner_email \<noteq> Some (username c)
         then AList.update ''is_public'' (JInt 1) query
         else query)"

definition get_graph ::
  "'g env \<Rightarrow> string option \<Rightarrow> int option \<Rightarrow> string option \<Rightarrow> request list
    \<Rightarrow> (error + 'g option) \<times> request list" where
  "get_graph c name graph_id owner_email log =
     (case graph_id of
        Some i \<Rightarrow>
          (let graph_by_id_path = GRAPHS_PATH c @ str i;
               (resp, log') = make_request c GET graph_by_id_path None None log
           in (bind_err resp (\<lambda>r. bind_err (APIResponse_graph c r) (\<lambda>g. Inr (Some g))), log'))
      | None \<Rightarrow>
          (case name of
             Some n \<Rightarrow>
               (let query = name_query c n owner_email;
                    (resp, log') = make_request c GET (GRAPHS_PATH c) None (Some query) log
                in (bind_err resp (\<lambda>response.
                      bind_err (dict_get response ''total'' (JInt 0)) (\<lambda>total.
                      bind_err (gt_zero total) (\<lambda>positive.
                        if positive
                        then bind_err (dict_get response ''graphs'' JNull) (\<lambda>graphs.
                             bind_err (subscript_zero graphs) (\<lambda>first.
                             bind_err (APIResponse_graph c first) (\<lambda>g. Inr (Some g))))
                        else Inr None))), log'))
           | None \<Rightarrow> (Inl (Exception none_msg), log)))"

definition list_query :: "string \<Rightarrow> jsonv \<Rightarrow> string list option \<Rightarrow> int \<Rightarrow> int \<Rightarrow> dict" where
  "list_query key val tags limit offset =
     (let query = [(key, val), (''limit'', JInt limit), (''offset'', JInt offset)]
      in case tags of
           Some ts \<Rightarrow> AList.update ''tags[]'' (JList (map JStr ts)) query
         | None \<Rightarrow> query)"

definition get_public_graphs ::
  "'g env \<Rightarrow> string list option \<Rightarrow> int \<Rightarrow> int \<Rightarrow> request list \<Rightarrow> (error + 'g list) \<times> request list" where
  "get_public_graphs c tags limit offset log =
     (let query = list_query ''is_public'' (JInt 1) tags limit offset;
          (resp, log') = make_request c GET (GRAPHS_PATH c) None (Some query) log
      in (bind_err resp (APIResponse_graphs c), log'))"

definition get_shared_graphs ::
  "'g env \<Rightarrow> string list option \<Rightarrow> int \<Rightarrow> int \<Rightarrow> request list \<Rightarrow> (error + 'g list) \<times> request list" where
  "get_shared_graphs c tags limit offset log =
     (let query = list_query ''member_email'' (JStr (username c)) tags limit offset;
          (resp, log') = make_request c GET (GRAPHS_PATH c) None (Some query) log
      in (bind_err resp (APIResponse_graphs c), log'))"

definition get_my_graphs ::
  "'g env \<Rightarrow> string list option \<Rightarrow> int \<Rightarrow> int \<Rightarrow> request list \<Rightarrow> (error + 'g list) \<times> request list" where
  "get_my_graphs c tags limit offset log =
     (let query = list_query ''owner_email'' (JStr (username c)) tags limit offset;
          (resp, log') = make_request c GET (GRAPHS_PATH c) None (Some query) log
      in (bind_err resp (APIResponse_graphs c), log'))"

text \<open>
  The name branch shared by \<^verbatim>\<open>delete_graph\<close>, \<^verbatim>\<open>update_graph\<close>,
  \<^verbatim>\<open>make_graph_public\<close> and \<^verbatim>\<open>make_graph_private\<close>: the result of the lookup is
  tested by \<^verbatim>\<open>graph is None or graph.id is None\<close>, and an exception of the lookup
  propagates.
\<close>

definition resolved_id ::
  "'g env \<Rightarrow> string \<Rightarrow> (error + 'g option) \<Rightarrow> error + int" where
  "resolved_id c name looked_up =
     bind_err looked_up (\<lambda>graph.
       case graph of
         None \<Rightarrow> Inl (Exception (doesnt_exist_msg name (username c)))
       | Some g \<Rightarrow>
           (case id_attr c g of
              None \<Rightarrow> Inl (Exception (doesnt_exist_msg name (username c)))
            | Some i \<Rightarrow> Inr i))"

definition delete_graph ::
  "'g env \<Rightarrow> string option \<Rightarrow> int option \<Rightarrow> request list \<Rightarrow> (error + jsonv) \<times> request list" where
  "delete_graph c name graph_id log =
     (case graph_id of
        Some i \<Rightarrow>
          (let graph_by_id_path = GRAPHS_PATH c @ str i;
               (response, log') = make_request c DELETE graph_by_id_path None None log
           in (bind_err response (\<lambda>r. subscript_key r ''message''), log'))
      | None \<Rightarrow>
          (case name of
             Some n \<Rightarrow>
               (let (graph, log1) = get_graph c (Some n) None None log
                in case resolved_id c n graph of
                     Inl e \<Rightarrow> (Inl e, log1)
                   | Inr i \<Rightarrow>
                       (let graph_by_id_path = GRAPHS_PATH c @ str i;
                            (response, log2) = make_request c DELETE graph_by_id_path None None log1
                        in (bind_err response (\<lambda>r. subscript_key r ''message''), log2)))
           | None \<Rightarrow> (Inl (Exception none_msg), log)))"

definition update_graph ::
  "'g env \<Rightarrow> gsgraph \<Rightarrow> string option \<Rightarrow> int option \<Rightarrow> string option \<Rightarrow> request list
    \<Rightarrow> (error + 'g) \<times> request list" where
  "update_graph c graph name graph_id owner_email log =
     (case graph_id of
        Some i \<Rightarrow>
          (let graph_by_id_path = GRAPHS_PATH c @ str i;
               (resp, log') = make_request c PUT graph_by_id_path (Some (json graph)) None log
           in (bind_err resp (APIResponse_graph c), log'))
      | None \<Rightarrow>
          (case name of
             Some n \<Rightarrow>
               (let (graph1, log1) = get_graph c (Some n) None owner_email log
                in case resolved_id c n graph1 of
                     Inl e \<Rightarrow> (Inl e, log1)
                   | Inr i \<Rightarrow>
                       (let graph_by_id_path = GRAPHS_PATH c @ str i;
                            (resp, log2) = make_request c PUT graph_by_id_path (Some (json graph)) None log1
                        in (bind_err resp (APIResponse_graph c), log2)))
           | None \<Rightarrow> (Inl (Exception none_msg), log)))"

definition make_graph_public ::
  "'g env \<Rightarrow> string option \<Rightarrow> int option \<Rightarrow> request list \<Rightarrow> (error + 'g) \<times> request list" where
  "make_graph_public c name graph_id log =
     (case graph_id of
        Some i \<Rightarrow>
          (let graph_by_id_path = GRAPHS_PATH c @ str i;
               (resp, log') = make_request c PUT graph_by_id_path (Some [(''is_public'', JInt 1)]) None log
           in (bind_err resp (APIResponse_graph c), log'))
      | None \<Rightarrow>
          (case name of
             Some n \<Rightarrow>
               (let (graph, log1) = get_graph c (Some n) None None log
                in case resolved_id c n graph of
                     Inl e \<Rightarrow> (Inl e, log1)
                   | Inr i \<Rightarrow>
                       (let graph_by_id_path = GRAPHS_PATH c @ str i;
                            (resp, log2) = make_request c PUT graph_by_id_path
                                             (Some [(''is_public'', JInt 1)]) None log1
                        in (bind_err resp (APIResponse_graph c), log2)))
           | None \<Rightarrow> (Inl (Exception none_msg), log)))"

definition make_graph_private ::
  "'g env \<Rightarrow> string option \<Rightarrow> int option \<Rightarrow> request list \<Rightarrow> (error + 'g) \<times> request list" where
  "make_graph_private c name graph_id log =
     (case graph_id of
        Some i \<Rightarrow>
          (let graph_by_id_path = GRAPHS_PATH c @ str i;
               (resp, log') = make_request c PUT graph_by_id_path (Some [(''is_public'', JInt 0)]) None log
           in (bind_err resp (APIResponse_graph c), log'))
      | None \<Rightarrow>
          (case name of
             Some n \<Rightarrow>
               (let (graph, log1) = get_graph c (Some n) None None log
                in case resolved_id c n graph of
                     Inl e \<Rightarrow> (Inl e, log1)
                   | Inr i \<Rightarrow>
                       (let graph_by_id_path = GRAPHS_PATH c @ str i;
                            (resp, log2) = make_request c PUT graph_by_id_path
                                             (Some [(''is_public'', JInt 0)]) None log1
                        in (bind_err resp (APIResponse_graph c), log2)))
           | None \<Rightarrow> (Inl (Exception none_msg), log)))"

text \<open>The transport calls an operation issued: the requests it appended to the log.\<close>

definition calls :: "'a \<times> request list \<Rightarrow> request list \<Rightarrow> request list" where
  "calls res log = drop (length log) (snd res)"

subsection \<open>The requests the operations build\<close>

text \<open>The lookup by name: a \<^verbatim>\<open>GET\<close> on the collection path with the name query.\<close>

definition lookup_request :: "'g env \<Rightarrow> string \<Rightarrow> string option \<Rightarrow> request" where
  "lookup_request c name owner_email =
     \<lparr>req_method = GET, req_path = GRAPHS_PATH c, req_data = None,
      req_url_params = Some (name_query c name owner_email)\<rparr>"

text \<open>A request on an individual resource: the path is \<^verbatim>\<open>GRAPHS_PATH + str(graph_id)\<close>.\<close>

definition by_id_request :: "'g env \<Rightarrow> http_method \<Rightarrow> int \<Rightarrow> dict option \<Rightarrow> request" where
  "by_id_request c m i d =
     \<lparr>req_method = m, req_path = GRAPHS_PATH c @ str i, req_data = d, req_url_params = None\<rparr>"

text \<open>The request of the three list operations.\<close>

definition list_request :: "'g env \<Rightarrow> string \<Rightarrow> jsonv \<Rightarrow> string list option \<Rightarrow> int \<Rightarrow> int \<Rightarrow> request" where
  "list_request c key val tags limit offset =
     \<lparr>req_method = GET, req_path = GRAPHS_PATH c, req_data = None,
      req_url_params = Some (list_query key val tags limit offset)\<rparr>"

text \<open>The lookup by name returned a graph whose \<^verbatim>\<open>id\<close> is not \<^verbatim>\<open>None\<close>.\<close>

definition lookup_resolves :: "'g env \<Rightarrow> string \<Rightarrow> string option \<Rightarrow> request list \<Rightarrow> bool" where
  "lookup_resolves c name owner_email log =
     (case fst (get_graph c (Some name) None owner_email log) of
        Inr (Some g) \<Rightarrow> id_attr c g \<noteq> None
      | _ \<Rightarrow> False)"

subsection \<open>A response envelope and a mock transport\<close>

text \<open>
  Modelled from the spec: the response envelope \<^verbatim>\<open>APIResponse\<close> and the graph object it
  builds, which live in \<^verbatim>\<open>graphspace_python.api.obj\<close>, outside the endpoint module. The
  spec describes the envelope as "a wrapper that extracts either a single entity (key
  "graph") or a list of entities (key "graphs") plus a total count, from a raw
  JSON-decoded response", and the graph resource as "a local representation constructed
  from a JSON response" with a numeric id. They instantiate the parameters of \<open>env\<close> at
  concrete inputs only; every general result below is proved for an arbitrary \<open>env\<close>.
\<close>

datatype graph = Graph (fields: dict)

definition Graph_id :: "graph \<Rightarrow> int option" where
  "Graph_id g = (case map_of (fields g) ''id'' of Some (JInt i) \<Rightarrow> Some i | _ \<Rightarrow> None)"

definition graph_of_json :: "jsonv \<Rightarrow> error + graph" where
  "graph_of_json v = (case v of JObj d \<Rightarrow> Inr (Graph d) | _ \<Rightarrow> Inl TypeError)"

fun graphs_of_json :: "jsonv list \<Rightarrow> error + graph list" where
  "graphs_of_json [] = Inr []"
| "graphs_of_json (v # vs) =
     bind_err (graph_of_json v) (\<lambda>g. bind_err (graphs_of_json vs) (\<lambda>gs. Inr (g # gs)))"

definition envelope_graph :: "jsonv \<Rightarrow> error + graph" where
  "envelope_graph r = bind_err (subscript_key r ''graph'') graph_of_json"

definition envelope_graphs :: "jsonv \<Rightarrow> error + graph list" where
  "envelope_graphs r =
     bind_err (subscript_key r ''graphs'')
       (\<lambda>v. case v of JList vs \<Rightarrow> graphs_of_json vs | _ \<Rightarrow> Inl TypeError)"

text \<open>
  A mock service for concrete runs. A lookup of the name \<^verbatim>\<open>g1\<close> finds one graph with
  id 7, a lookup of \<^verbatim>\<open>g2\<close> is answered without a \<^verbatim>\<open>total\<close> key, any other name has
  no match; a list query is answered with two graphs whatever the limit.
\<close>

definition mock_transport :: "request list \<Rightarrow> request \<Rightarrow> error + jsonv" where
  "mock_transport log r =
     (case req_method r of
        DELETE \<Rightarrow> Inr (JObj [(''message'', JStr ''Successfully deleted graph'')])
      | POST \<Rightarrow> Inr (JObj [(''graph'', JObj ((''id'', JInt 7) # (case req_data r of Some d \<Rightarrow> d | None \<Rightarrow> [])))])
      | PUT \<Rightarrow> Inr (JObj [(''graph'', JObj ((''id'', JInt 7) # (case req_data r of Some d \<Rightarrow> d | None \<Rightarrow> [])))])
      | GET \<Rightarrow>
          (case req_url_params r of
             None \<Rightarrow> Inr (JObj [(''graph'', JObj [(''id'', JInt 7), (''name'', JStr ''g1'')])])
           | Some q \<Rightarrow>
               (case map_of q ''names[]'' of
                  None \<Rightarrow> Inr (JObj [(''total'', JInt 2),
                                   (''graphs'', JList [JObj [(''id'', JInt 7)], JObj [(''id'', JInt 8)]])])
                | Some n \<Rightarrow>
                    if n = JStr ''g1''
                    then Inr (JObj [(''total'', JInt 1),
                                   (''graphs'', JList [JObj [(''graph'', JObj [(''id'', JInt 7), (''name'', JStr ''g1'')])]])])
                    else if n = JStr ''g2''
                    then Inr (JObj [(''graphs'', JList [])])
                    else Inr (JObj [(''total'', JInt 0), (''graphs'', JList [])]))))"

definition mock_env :: "graph env" where
  "mock_env = \<lparr>username = ''user1@example.com'', transport = mock_transport,
               GRAPHS_PATH = ''/api/v1/graphs/'', APIResponse_graph = envelope_graph,
               APIResponse_graphs = envelope_graphs, id_attr = Graph_id\<rparr>"

section \<open>What each operation sends and returns\<close>

lemma calls_append [simp]: "calls (r, log @ rs) log = rs"
  by (simp add: calls_def)

lemma calls_same [simp]: "calls (r, log) log = []"
  by (simp add: calls_def)

lemma calls_snd: "snd res = log @ rs \<Longrightarrow> calls res log = rs"
  by (simp add: calls_def)

lemma post_graph_eq:
  "post_graph c graph log =
     (bind_err (transport c log
          \<lparr>req_method = POST, req_path = GRAPHS_PATH c,
           req_data = Some (AList.update ''owner_email'' (JStr (username c)) (json graph)),
           req_url_params = None\<rparr>) (APIResponse_graph c),
      log @ [\<lparr>req_method = POST, req_path = GRAPHS_PATH c,
           req_data = Some (AList.update ''owner_email'' (JStr (username c)) (json graph)),
           req_url_params = None\<rparr>])"
  by (simp add: post_graph_def make_request_def Let_def)

lemma get_graph_by_id:
  "get_graph c name (Some i) owner_email log =
     (bind_err (transport c log (by_id_request c GET i None))
        (\<lambda>r. bind_err (APIResponse_graph c r) (\<lambda>g. Inr (Some g))),
      log @ [by_id_request c GET i None])"
  by (simp add: get_graph_def make_request_def by_id_request_def Let_def)

lemma get_graph_by_name_log:
  "snd (get_graph c (Some n) None owner_email log) = log @ [lookup_request c n owner_email]"
  by (simp add: get_graph_def make_request_def lookup_request_def Let_def)

lemma get_graph_by_name_result:
  "fst (get_graph c (Some n) None owner_email log) =
     bind_err (transport c log (lookup_request c n owner_email)) (\<lambda>response.
       bind_err (dict_get response ''total'' (JInt 0)) (\<lambda>total.
       bind_err (gt_zero total) (\<lambda>positive.
         if positive
         then bind_err (dict_get response ''graphs'' JNull) (\<lambda>graphs.
              bind_err (subscript_zero graphs) (\<lambda>first.
              bind_err (APIResponse_graph c first) (\<lambda>g. Inr (Some g))))
         else Inr None)))"
  by (simp add: get_graph_def make_request_def lookup_request_def Let_def)

lemma list_graphs_eq:
  "get_public_graphs c tags limit offset log =
     (bind_err (transport c log (list_request c ''is_public'' (JInt 1) tags limit offset))
        (APIResponse_graphs c),
      log @ [list_request c ''is_public'' (JInt 1) tags limit offset])"
  "get_shared_graphs c tags limit offset log =
     (bind_err (transport c log (list_request c ''member_email'' (JStr (username c)) tags limit offset))
        (APIResponse_graphs c),
      log @ [list_request c ''member_email'' (JStr (username c)) tags limit offset])"
  "get_my_graphs c tags limit offset log =
     (bind_err (transport c log (list_request c ''owner_email'' (JStr (username c)) tags limit offset))
        (APIResponse_graphs c),
      log @ [list_request c ''owner_email'' (JStr (username c)) tags limit offset])"
  by (simp_all add: get_public_graphs_def get_shared_graphs_def get_my_graphs_def
        make_request_def list_request_def Let_def)

lemma delete_graph_by_id:
  "delete_graph c name (Some i) log =
     (bind_err (transport c log (by_id_request c DELETE i None)) (\<lambda>r. subscript_key r ''message''),
      log @ [by_id_request c DELETE i None])"
  by (simp add: delete_graph_def make_request_def by_id_request_def Let_def)

lemma delete_graph_by_name:
  "delete_graph c (Some n) None log =
     (case resolved_id c n (fst (get_graph c (Some n) None None log)) of
        Inl e \<Rightarrow> (Inl e, log @ [lookup_request c n None])
      | Inr i \<Rightarrow>
          (bind_err (transport c (log @ [lookup_request c n None]) (by_id_request c DELETE i None))
             (\<lambda>r. subscript_key r ''message''),
           log @ [lookup_request c n None, by_id_request c DELETE i None]))"
  using get_graph_by_name_log [of c n None log]
  by (cases "get_graph c (Some n) None None log")
     (simp add: delete_graph_def make_request_def by_id_request_def Let_def split: sum.splits)

lemma update_graph_by_id:
  "update_graph c graph name (Some i) owner_email log =
     (bind_err (transport c log (by_id_request c PUT i (Some (json graph)))) (APIResponse_graph c),
      log @ [by_id_request c PUT i (Some (json graph))])"
  by (simp add: update_graph_def make_request_def by_id_request_def Let_def)

lemma update_graph_by_name:
  "update_graph c graph (Some n) None owner_email log =
     (case resolved_id c n (fst (get_graph c (Some n) None owner_email log)) of
        Inl e \<Rightarrow> (Inl e, log @ [lookup_request c n owner_email])
      | Inr i \<Rightarrow>
          (bind_err (transport c (log @ [lookup_request c n owner_email])
                       (by_id_request c PUT i (Some (json graph))))
             (APIResponse_graph c),
           log @ [lookup_request c n owner_email, by_id_request c PUT i (Some (json graph))]))"
  using get_graph_by_name_log [of c n owner_email log]
  by (cases "get_graph c (Some n) None owner_email log")
     (simp add: update_graph_def make_request_def by_id_request_def Let_def split: sum.splits)

lemma make_graph_public_by_id:
  "make_graph_public c name (Some i) log =
     (bind_err (transport c log (by_id_request c PUT i (Some [(''is_public'', JInt 1)])))
        (APIResponse_graph c),
      log @ [by_id_request c PUT i (Some [(''is_public'', JInt 1)])])"
  by (simp add: make_graph_public_def make_request_def by_id_request_def Let_def)

lemma make_graph_public_by_name:
  "make_graph_public c (Some n) None log =
     (case resolved_id c n (fst (get_graph c (Some n) None None log)) of
        Inl e \<Rightarrow> (Inl e, log @ [lookup_request c n None])
      | Inr i \<Rightarrow>
          (bind_err (transport c (log @ [lookup_request c n None])
                       (by_id_request c PUT i (Some [(''is_public'', JInt 1)])))
             (APIResponse_graph c),
           log @ [lookup_request c n None, by_id_request c PUT i (Some [(''is_public'', JInt 1)])]))"
  using get_graph_by_name_log [of c n None log]
  by (cases "get_graph c (Some n) None None log")
     (simp add: make_graph_public_def make_request_def by_id_request_def Let_def split: sum.splits)

lemma make_graph_private_by_id:
  "make_graph_private c name (Some i) log =
     (bind_err (transport c log (by_id_request c PUT i (Some [(''is_public'', JInt 0)])))
        (APIResponse_graph c),
      log @ [by_id_request c PUT i (Some [(''is_public'', JInt 0)])])"
  by (simp add: make_graph_private_def make_request_def by_id_request_def Let_def)

lemma make_graph_private_by_name:
  "make_graph_private c (Some n) None log =
     (case resolved_id c n (fst (get_graph c (Some n) None None log)) of
        Inl e \<Rightarrow> (Inl e, log @ [lookup_request c n None])
      | Inr i \<Rightarrow>
          (bind_err (transport c (log @ [lookup_request c n None])
                       (by_id_request c PUT i (Some [(''is_public'', JInt 0)])))
             (APIResponse_graph c),
           log @ [lookup_request c n None, by_id_request c PUT i (Some [(''is_public'', JInt 0)])]))"
  using get_graph_by_name_log [of c n None log]
  by (cases "get_graph c (Some n) None None log")
     (simp add: make_graph_private_def make_request_def by_id_request_def Let_def split: sum.splits)

lemma resolved_id_Inr:
  "(\<exists>i. resolved_id c n (fst (get_graph c (Some n) None owner_email log)) = Inr i)
     = lookup_resolves c n owner_email log"
  by (auto simp: resolved_id_def lookup_resolves_def bind_err_def split: sum.splits option.splits)

lemma name_branch_calls:
  "length (calls (case resolved_id c n (fst (get_graph c (Some n) None owner_email log)) of
        Inl e \<Rightarrow> (Inl e, log @ [r1])
      | Inr i \<Rightarrow> (f i, log @ [r1, r2 i])) log)
   = (if lookup_resolves c n owner_email log then 2 else 1)"
  using resolved_id_Inr [of c n owner_email log]
  by (cases "resolved_id c n (fst (get_graph c (Some n) None owner_email log))") auto

section \<open>Absent identification\<close>

text \<open>
  C2. When both \<^verbatim>\<open>name\<close> and \<^verbatim>\<open>graph_id\<close> are \<^verbatim>\<open>None\<close>, each of
  \<^verbatim>\<open>get_graph\<close>, \<^verbatim>\<open>delete_graph\<close>, \<^verbatim>\<open>update_graph\<close>, \<^verbatim>\<open>make_graph_public\<close> and
  \<^verbatim>\<open>make_graph_private\<close> raises the exception that says both cannot be none, and the
  log is unchanged: no transport call was issued.
\<close>

theorem absent_identification_raises_without_call:
  "get_graph c None None owner_email log = (Inl (Exception none_msg), log)
   \<and> delete_graph c None None log = (Inl (Exception none_msg), log)
   \<and> update_graph c graph None None owner_email log = (Inl (Exception none_msg), log)
   \<and> make_graph_public c None None log = (Inl (Exception none_msg), log)
   \<and> make_graph_private c None None log = (Inl (Exception none_msg), log)
   \<and> calls (get_graph c None None owner_email log) log = []
   \<and> calls (delete_graph c None None log) log = []
   \<and> calls (update_graph c graph None None owner_email log) log = []
   \<and> calls (make_graph_public c None None log) log = []
   \<and> calls (make_graph_private c None None log) log = []"
  by (simp add: get_graph_def delete_graph_def update_graph_def make_graph_public_def
        make_graph_private_def calls_def)

section \<open>How many transport calls an operation issues\<close>

text \<open>
  C1 (amended). \<^verbatim>\<open>post_graph\<close>, the three list operations and every operation called
  with a \<^verbatim>\<open>graph_id\<close> issue exactly one transport call, and so does the lookup
  \<^verbatim>\<open>get_graph(name=name)\<close>: its single \<^verbatim>\<open>GET\<close> is the fetch itself. With
  \<^verbatim>\<open>graph_id\<close> absent and a name given, \<^verbatim>\<open>delete_graph\<close>, \<^verbatim>\<open>update_graph\<close>,
  \<^verbatim>\<open>make_graph_public\<close> and \<^verbatim>\<open>make_graph_private\<close> issue the lookup and then
  exactly one further call when the lookup returned a graph with an id (two calls), and
  the lookup alone when it raised or found no such graph (one call).
\<close>

theorem transport_call_counts:
  "length (calls (post_graph c graph log) log) = 1
   \<and> length (calls (get_public_graphs c tags limit offset log) log) = 1
   \<and> length (calls (get_shared_graphs c tags limit offset log) log) = 1
   \<and> length (calls (get_my_graphs c tags limit offset log) log) = 1
   \<and> length (calls (get_graph c name (Some i) owner_email log) log) = 1
   \<and> length (calls (delete_graph c name (Some i) log) log) = 1
   \<and> length (calls (update_graph c graph name (Some i) owner_email log) log) = 1
   \<and> length (calls (make_graph_public c name (Some i) log) log) = 1
   \<and> length (calls (make_graph_private c name (Some i) log) log) = 1
   \<and> length (calls (get_graph c (Some n) None owner_email log) log) = 1
   \<and> length (calls (delete_graph c (Some n) None log) log)
       = (if lookup_resolves c n None log then 2 else 1)
   \<and> length (calls (update_graph c graph (Some n) None owner_email log) log)
       = (if lookup_resolves c n owner_email log then 2 else 1)
   \<and> length (calls (make_graph_public c (Some n) None log) log)
       = (if lookup_resolves c n None log then 2 else 1)
   \<and> length (calls (make_graph_private c (Some n) None log) log)
       = (if lookup_resolves c n None log then 2 else 1)"
  by (simp only: post_graph_eq list_graphs_eq get_graph_by_id delete_graph_by_id
        update_graph_by_id make_graph_public_by_id make_graph_private_by_id
        delete_graph_by_name update_graph_by_name make_graph_public_by_name
        make_graph_private_by_name name_branch_calls
        calls_snd [OF get_graph_by_name_log] calls_append)
     simp

text \<open>The mock service at the names \<^verbatim>\<open>g1\<close> (found) and \<^verbatim>\<open>zz\<close> (no match).\<close>

lemma mock_simps:
  "username mock_env = ''user1@example.com''"
  "transport mock_env = mock_transport"
  "GRAPHS_PATH mock_env = ''/api/v1/graphs/''"
  "APIResponse_graph mock_env = envelope_graph"
  "APIResponse_graphs mock_env = envelope_graphs"
  "id_attr mock_env = Graph_id"
  by (simp_all add: mock_env_def)

lemma mock_lookup_g1:
  "fst (get_graph mock_env (Some ''g1'') None None log)
     = Inr (Some (Graph [(''id'', JInt 7), (''name'', JStr ''g1'')]))"
  by (simp add: get_graph_by_name_result mock_simps lookup_request_def name_query_def
        mock_transport_def bind_err_def envelope_graph_def graph_of_json_def Let_def)

lemma mock_lookup_other:
  "fst (get_graph mock_env (Some ''zz'') None None log) = Inr None"
  by (simp add: get_graph_by_name_result mock_simps lookup_request_def name_query_def
        mock_transport_def bind_err_def Let_def)

lemma mock_resolves_g1: "lookup_resolves mock_env ''g1'' None log"
  by (simp add: lookup_resolves_def mock_lookup_g1 mock_simps Graph_id_def)

lemma mock_resolves_other: "\<not> lookup_resolves mock_env ''zz'' None log"
  by (simp add: lookup_resolves_def mock_lookup_other)

theorem transport_call_counts_witness:
  "length (calls (get_graph mock_env (Some ''g1'') None None []) []) = 1
   \<and> length (calls (delete_graph mock_env (Some ''g1'') None []) []) = 2
   \<and> length (calls (delete_graph mock_env (Some ''zz'') None []) []) = 1
   \<and> length (calls (delete_graph mock_env None (Some 7) []) []) = 1"
  using transport_call_counts [of mock_env "GSGraph []" "[]" None 20 0 None 7 None "''g1''"]
        transport_call_counts [of mock_env "GSGraph []" "[]" None 20 0 None 7 None "''zz''"]
        mock_resolves_g1 [of "[]"] mock_resolves_other [of "[]"]
  by simp

text \<open>The lookup \<^verbatim>\<open>get_graph(name='g1')\<close> does not issue two calls.\<close>

theorem get_graph_by_name_two_calls_counterexample:
  "length (calls (get_graph mock_env (Some ''g1'') None None []) []) \<noteq> 2"
  by (simp add: calls_snd [OF get_graph_by_name_log])

section \<open>The query of the lookup by name\<close>

text \<open>
  C3. For every name and owner email, \<^verbatim>\<open>get_graph(name=name, owner_email=owner_email)\<close>
  issues one \<^verbatim>\<open>GET\<close> on the collection path whose query maps \<^verbatim>\<open>names[]\<close> to the
  name and \<^verbatim>\<open>owner_email\<close> to the given owner email, or to \<^verbatim>\<open>client.username\<close>
  when none is given; the query has the key \<^verbatim>\<open>is_public\<close>, with value 1, exactly
  when an owner email is given and differs from \<^verbatim>\<open>client.username\<close>.
\<close>

theorem lookup_by_name_query:
  "calls (get_graph c (Some name) None owner_email log) log
     = [\<lparr>req_method = GET, req_path = GRAPHS_PATH c, req_data = None,
         req_url_params = Some (name_query c name owner_email)\<rparr>]
   \<and> map_of (name_query c name owner_email) ''names[]'' = Some (JStr name)
   \<and> map_of (name_query c name owner_email) ''owner_email''
       = Some (JStr (case owner_email of None \<Rightarrow> username c | Some e \<Rightarrow> e))
   \<and> (map_of (name_query c name owner_email) ''is_public'' = Some (JInt 1))
       = (owner_email \<noteq> None \<and> owner_email \<noteq> Some (username c))
   \<and> (''is_public'' \<in> fst ` set (name_query c name owner_email))
       = (owner_email \<noteq> None \<and> owner_email \<noteq> Some (username c))"
  by (simp add: calls_snd [OF get_graph_by_name_log] lookup_request_def name_query_def Let_def)

theorem lookup_by_name_query_witness:
  "calls (get_graph mock_env (Some ''g1'') None (Some ''other@example.com'') []) []
     = [\<lparr>req_method = GET, req_path = ''/api/v1/graphs/'', req_data = None,
         req_url_params = Some [(''owner_email'', JStr ''other@example.com''),
                                (''names[]'', JStr ''g1''), (''is_public'', JInt 1)]\<rparr>]
   \<and> calls (get_graph mock_env (Some ''g1'') None (Some ''user1@example.com'') []) []
     = [\<lparr>req_method = GET, req_path = ''/api/v1/graphs/'', req_data = None,
         req_url_params = Some [(''owner_email'', JStr ''user1@example.com''),
                                (''names[]'', JStr ''g1'')]\<rparr>]
   \<and> calls (get_graph mock_env (Some ''g1'') None None []) []
     = [\<lparr>req_method = GET, req_path = ''/api/v1/graphs/'', req_data = None,
         req_url_params = Some [(''owner_email'', JStr ''user1@example.com''),
                                (''names[]'', JStr ''g1'')]\<rparr>]"
  using lookup_by_name_query [of mock_env "''g1''" "Some ''other@example.com''" "[]"]
        lookup_by_name_query [of mock_env "''g1''" "Some ''user1@example.com''" "[]"]
        lookup_by_name_query [of mock_env "''g1''" None "[]"]
  by (simp add: name_query_def mock_simps Let_def)

section \<open>The result of the lookup by name\<close>

lemma mock_lookup_response:
  "transport mock_env log (lookup_request mock_env n None)
     = (if n = ''g1''
        then Inr (JObj [(''total'', JInt 1),
                        (''graphs'', JList [JObj [(''graph'', JObj [(''id'', JInt 7), (''name'', JStr ''g1'')])]])])
        else if n = ''g2''
        then Inr (JObj [(''graphs'', JList [])])
        else Inr (JObj [(''total'', JInt 0), (''graphs'', JList [])]))"
  by (simp add: mock_simps lookup_request_def name_query_def mock_transport_def Let_def)

text \<open>
  C4. When the response to the lookup by name is a dict whose \<^verbatim>\<open>total\<close> is 0,
  \<^verbatim>\<open>get_graph(name=name)\<close> returns \<^verbatim>\<open>None\<close> and raises nothing. When \<^verbatim>\<open>total\<close> is
  greater than 0 and the \<^verbatim>\<open>graphs\<close> list of the response has a first element, it
  returns that element wrapped by \<^verbatim>\<open>APIResponse('graph', _).graph\<close>.
\<close>

theorem lookup_by_name_result:
  "transport c log (lookup_request c name owner_email) = Inr (JObj d) \<Longrightarrow>
   map_of d ''total'' = Some (JInt t) \<Longrightarrow>
     (t = 0 \<longrightarrow> fst (get_graph c (Some name) None owner_email log) = Inr None)
   \<and> (0 < t \<longrightarrow> map_of d ''graphs'' = Some (JList (g # gs)) \<longrightarrow>
        fst (get_graph c (Some name) None owner_email log)
          = bind_err (APIResponse_graph c g) (\<lambda>wrapped. Inr (Some wrapped)))"
  by (simp add: get_graph_by_name_result bind_err_def)

theorem lookup_by_name_result_witness:
  "transport mock_env [] (lookup_request mock_env ''zz'' None)
     = Inr (JObj [(''total'', JInt 0), (''graphs'', JList [])])
   \<and> map_of [(''total'', JInt 0), (''graphs'', JList [])] ''total'' = Some (JInt 0)
   \<and> fst (get_graph mock_env (Some ''zz'') None None []) = Inr None
   \<and> transport mock_env [] (lookup_request mock_env ''g1'' None)
     = Inr (JObj [(''total'', JInt 1),
                  (''graphs'', JList [JObj [(''graph'', JObj [(''id'', JInt 7), (''name'', JStr ''g1'')])]])])
   \<and> fst (get_graph mock_env (Some ''g1'') None None [])
     = Inr (Some (Graph [(''id'', JInt 7), (''name'', JStr ''g1'')]))"
proof -
  have r0: "transport mock_env [] (lookup_request mock_env ''zz'' None)
     = Inr (JObj [(''total'', JInt 0), (''graphs'', JList [])])"
    by (simp add: mock_lookup_response)
  have t0: "map_of [(''total'', JInt 0), (''graphs'', JList [])] ''total'' = Some (JInt 0)"
    by simp
  have r1: "transport mock_env [] (lookup_request mock_env ''g1'' None)
     = Inr (JObj [(''total'', JInt 1),
                  (''graphs'', JList [JObj [(''graph'', JObj [(''id'', JInt 7), (''name'', JStr ''g1'')])]])])"
    by (simp add: mock_lookup_response)
  have t1: "map_of [(''total'', JInt 1),
                  (''graphs'', JList [JObj [(''graph'', JObj [(''id'', JInt 7), (''name'', JStr ''g1'')])]])]
              ''total'' = Some (JInt 1)"
    by simp
  show ?thesis
    using r0 t0 r1 lookup_by_name_result [OF r0 t0] lookup_by_name_result [OF r1 t1]
    by (simp add: mock_simps envelope_graph_def graph_of_json_def bind_err_def)
qed

text \<open>
  Outside that case the subscript raises: with a positive \<^verbatim>\<open>total\<close> and an empty
  \<^verbatim>\<open>graphs\<close> list the lookup ends in \<^verbatim>\<open>IndexError\<close>, and in \<^verbatim>\<open>TypeError\<close> when
  the key \<^verbatim>\<open>graphs\<close> is missing.
\<close>

lemma lookup_by_name_no_first_element:
  assumes "transport c log (lookup_request c name owner_email) = Inr (JObj d)"
    and "map_of d ''total'' = Some (JInt t)" and "0 < t"
  shows "map_of d ''graphs'' = Some (JList []) \<Longrightarrow>
           fst (get_graph c (Some name) None owner_email log) = Inl IndexError"
    and "map_of d ''graphs'' = None \<Longrightarrow>
           fst (get_graph c (Some name) None owner_email log) = Inl TypeError"
  using assms by (simp_all add: get_graph_by_name_result bind_err_def)

text \<open>
  C10. When the response to the lookup by name is a dict without the key \<^verbatim>\<open>total\<close>,
  \<^verbatim>\<open>get_graph(name=name)\<close> returns \<^verbatim>\<open>None\<close> and raises no key error, whatever the
  dict holds under \<^verbatim>\<open>graphs\<close>, also nothing. More generally the result is \<^verbatim>\<open>None\<close>,
  independently of \<^verbatim>\<open>graphs\<close>, whenever \<^verbatim>\<open>total\<close> is an integer that is not greater
  than 0.
\<close>

theorem lookup_by_name_without_total:
  "transport c log (lookup_request c name owner_email) = Inr (JObj d) \<Longrightarrow>
     (map_of d ''total'' = None \<longrightarrow>
        fst (get_graph c (Some name) None owner_email log) = Inr None)
   \<and> (map_of d ''total'' = Some (JInt t) \<longrightarrow> t \<le> 0 \<longrightarrow>
        fst (get_graph c (Some name) None owner_email log) = Inr None)"
  by (simp add: get_graph_by_name_result bind_err_def)

theorem lookup_by_name_without_total_witness:
  "transport mock_env [] (lookup_request mock_env ''g2'' None) = Inr (JObj [(''graphs'', JList [])])
   \<and> map_of [(''graphs'', JList [])] ''total'' = None
   \<and> fst (get_graph mock_env (Some ''g2'') None None []) = Inr None
   \<and> transport mock_env [] (lookup_request mock_env ''zz'' None)
     = Inr (JObj [(''total'', JInt 0), (''graphs'', JList [])])
   \<and> fst (get_graph mock_env (Some ''zz'') None None []) = Inr None"
proof -
  have r2: "transport mock_env [] (lookup_request mock_env ''g2'' None)
     = Inr (JObj [(''graphs'', JList [])])"
    by (simp add: mock_lookup_response)
  have r0: "transport mock_env [] (lookup_request mock_env ''zz'' None)
     = Inr (JObj [(''total'', JInt 0), (''graphs'', JList [])])"
    by (simp add: mock_lookup_response)
  show ?thesis
    using r2 r0 lookup_by_name_without_total [OF r2, of 0]
      lookup_by_name_without_total [OF r0, of 0]
    by simp
qed

section \<open>Deleting by a name that does not resolve\<close>

lemma sublist_doesnt_exist_msg:
  "sublist name (doesnt_exist_msg name user)" "sublist user (doesnt_exist_msg name user)"
proof -
  have "doesnt_exist_msg name user =
      (''Graph with name '' @ [CHR 0x60]) @ name @ ([CHR 0x60] @ '' doesnt exist for user '' @
       [CHR 0x60] @ user @ [CHR 0x60] @ ''!'')"
    by (simp add: doesnt_exist_msg_def)
  then show "sublist name (doesnt_exist_msg name user)"
    unfolding sublist_def by blast
  have "doesnt_exist_msg name user =
      (''Graph with name '' @ [CHR 0x60] @ name @ [CHR 0x60] @ '' doesnt exist for user '' @
       [CHR 0x60]) @ user @ ([CHR 0x60] @ ''!'')"
    by (simp add: doesnt_exist_msg_def)
  then show "sublist user (doesnt_exist_msg name user)"
    unfolding sublist_def by blast
qed

text \<open>
  C5. If the lookup that \<^verbatim>\<open>delete_graph(name=name)\<close> performs yields \<^verbatim>\<open>None\<close>, then
  \<^verbatim>\<open>delete_graph\<close> raises an exception whose message contains the name and
  \<^verbatim>\<open>client.username\<close>, and the only transport call it issued is the lookup: no
  \<^verbatim>\<open>DELETE\<close> request is sent.
\<close>

theorem delete_by_unresolved_name:
  "fst (get_graph c (Some name) None None log) = Inr None \<Longrightarrow>
     fst (delete_graph c (Some name) None log)
       = Inl (Exception (doesnt_exist_msg name (username c)))
   \<and> sublist name (doesnt_exist_msg name (username c))
   \<and> sublist (username c) (doesnt_exist_msg name (username c))
   \<and> calls (delete_graph c (Some name) None log) log = [lookup_request c name None]
   \<and> DELETE \<notin> req_method ` set (calls (delete_graph c (Some name) None log) log)"
  by (simp add: delete_graph_by_name resolved_id_def bind_err_def sublist_doesnt_exist_msg
        lookup_request_def)

theorem delete_by_unresolved_name_witness:
  "fst (get_graph mock_env (Some ''zz'') None None []) = Inr None
   \<and> fst (delete_graph mock_env (Some ''zz'') None [])
       = Inl (Exception (''Graph with name '' @ [CHR 0x60] @ ''zz'' @ [CHR 0x60] @
            '' doesnt exist for user '' @ [CHR 0x60] @ ''user1@example.com'' @ [CHR 0x60] @ ''!''))
   \<and> map req_method (calls (delete_graph mock_env (Some ''zz'') None []) []) = [GET]"
  using delete_by_unresolved_name [OF mock_lookup_other [of "[]"]] mock_lookup_other [of "[]"]
  by (simp add: doesnt_exist_msg_def mock_simps lookup_request_def)

section \<open>The list operations\<close>

text \<open>
  C6 (amended). For every limit and offset, each of \<^verbatim>\<open>get_public_graphs\<close>,
  \<^verbatim>\<open>get_shared_graphs\<close> and \<^verbatim>\<open>get_my_graphs\<close> issues one \<^verbatim>\<open>GET\<close> on the collection
  path whose query maps \<^verbatim>\<open>limit\<close> to the given limit and \<^verbatim>\<open>offset\<close> to the given
  offset, unchanged, and returns what \<^verbatim>\<open>APIResponse('graph', _).graphs\<close> makes of the
  transport's response, without truncating it: the number of graphs returned is the
  number the service sent.
\<close>

theorem list_operations_pass_limit_offset:
  "calls (get_public_graphs c tags limit offset log) log
     = [\<lparr>req_method = GET, req_path = GRAPHS_PATH c, req_data = None,
         req_url_params = Some (list_query ''is_public'' (JInt 1) tags limit offset)\<rparr>]
   \<and> calls (get_shared_graphs c tags limit offset log) log
     = [\<lparr>req_method = GET, req_path = GRAPHS_PATH c, req_data = None,
         req_url_params = Some (list_query ''member_email'' (JStr (username c)) tags limit offset)\<rparr>]
   \<and> calls (get_my_graphs c tags limit offset log) log
     = [\<lparr>req_method = GET, req_path = GRAPHS_PATH c, req_data = None,
         req_url_params = Some (list_query ''owner_email'' (JStr (username c)) tags limit offset)\<rparr>]
   \<and> map_of (list_query ''is_public'' (JInt 1) tags limit offset) ''limit'' = Some (JInt limit)
   \<and> map_of (list_query ''is_public'' (JInt 1) tags limit offset) ''offset'' = Some (JInt offset)
   \<and> map_of (list_query ''member_email'' (JStr (username c)) tags limit offset) ''limit''
       = Some (JInt limit)
   \<and> map_of (list_query ''member_email'' (JStr (username c)) tags limit offset) ''offset''
       = Some (JInt offset)
   \<and> map_of (list_query ''owner_email'' (JStr (username c)) tags limit offset) ''limit''
       = Some (JInt limit)
   \<and> map_of (list_query ''owner_email'' (JStr (username c)) tags limit offset) ''offset''
       = Some (JInt offset)
   \<and> fst (get_public_graphs c tags limit offset log)
       = bind_err (transport c log
            \<lparr>req_method = GET, req_path = GRAPHS_PATH c, req_data = None,
             req_url_params = Some (list_query ''is_public'' (JInt 1) tags limit offset)\<rparr>)
           (APIResponse_graphs c)
   \<and> fst (get_shared_graphs c tags limit offset log)
       = bind_err (transport c log
            \<lparr>req_method = GET, req_path = GRAPHS_PATH c, req_data = None,
             req_url_params = Some (list_query ''member_email'' (JStr (username c)) tags limit offset)\<rparr>)
           (APIResponse_graphs c)
   \<and> fst (get_my_graphs c tags limit offset log)
       = bind_err (transport c log
            \<lparr>req_method = GET, req_path = GRAPHS_PATH c, req_data = None,
             req_url_params = Some (list_query ''owner_email'' (JStr (username c)) tags limit offset)\<rparr>)
           (APIResponse_graphs c)"
  by (simp add: list_graphs_eq list_request_def list_query_def Let_def update_conv' split: option.split)

theorem list_operations_pass_limit_offset_witness:
  "calls (get_my_graphs mock_env (Some [''Kegg-networks'']) 5 10 []) []
     = [\<lparr>req_method = GET, req_path = ''/api/v1/graphs/'', req_data = None,
         req_url_params = Some [(''owner_email'', JStr ''user1@example.com''), (''limit'', JInt 5),
                                (''offset'', JInt 10), (''tags[]'', JList [JStr ''Kegg-networks''])]\<rparr>]
   \<and> fst (get_my_graphs mock_env (Some [''Kegg-networks'']) 5 10 [])
       = Inr [Graph [(''id'', JInt 7)], Graph [(''id'', JInt 8)]]"
  using list_operations_pass_limit_offset [of mock_env "Some [''Kegg-networks'']" 5 10 "[]"]
  by (simp add: list_query_def Let_def mock_simps mock_transport_def bind_err_def
        envelope_graphs_def graph_of_json_def)

text \<open>With limit 1 the mock service still answers with two graphs, and both are returned.\<close>

theorem list_longer_than_limit_counterexample:
  "fst (get_public_graphs mock_env None 1 0 [])
     = Inr [Graph [(''id'', JInt 7)], Graph [(''id'', JInt 8)]]
   \<and> \<not> int (length [Graph [(''id'', JInt 7)], Graph [(''id'', JInt 8)]]) \<le> 1"
  by (simp add: list_graphs_eq list_request_def list_query_def Let_def mock_simps
        mock_transport_def bind_err_def envelope_graphs_def graph_of_json_def)

section \<open>Visibility as an update\<close>

text \<open>
  C7. For every name, graph id, environment (so every transport behaviour) and log,
  \<^verbatim>\<open>make_graph_public\<close> is \<^verbatim>\<open>update_graph\<close> with the same \<^verbatim>\<open>name\<close> and
  \<^verbatim>\<open>graph_id\<close> on a graph whose \<^verbatim>\<open>json()\<close> is \<^verbatim>\<open>{'is_public': 1}\<close>, and
  \<^verbatim>\<open>make_graph_private\<close> likewise with \<^verbatim>\<open>{'is_public': 0}\<close>: the same result or
  exception and the same requests in the same order.
\<close>

theorem make_graph_public_private_as_update:
  "make_graph_public c name graph_id log
     = update_graph c (GSGraph [(''is_public'', JInt 1)]) name graph_id None log
   \<and> make_graph_private c name graph_id log
     = update_graph c (GSGraph [(''is_public'', JInt 0)]) name graph_id None log"
proof (cases graph_id)
  case (Some i)
  then show ?thesis
    by (simp add: make_graph_public_by_id make_graph_private_by_id update_graph_by_id)
next
  case no_id: None
  show ?thesis
  proof (cases name)
    case None
    with no_id show ?thesis
      by (simp add: make_graph_public_def make_graph_private_def update_graph_def)
  next
    case (Some n)
    with no_id show ?thesis
      by (simp add: make_graph_public_by_name make_graph_private_by_name update_graph_by_name
            split: sum.split)
  qed
qed

theorem make_graph_public_private_as_update_witness:
  "make_graph_public mock_env None (Some 1) []
     = (Inr (Graph [(''id'', JInt 7), (''is_public'', JInt 1)]),
        [\<lparr>req_method = PUT, req_path = ''/api/v1/graphs/1'',
          req_data = Some [(''is_public'', JInt 1)], req_url_params = None\<rparr>])
   \<and> update_graph mock_env (GSGraph [(''is_public'', JInt 1)]) None (Some 1) None []
     = (Inr (Graph [(''id'', JInt 7), (''is_public'', JInt 1)]),
        [\<lparr>req_method = PUT, req_path = ''/api/v1/graphs/1'',
          req_data = Some [(''is_public'', JInt 1)], req_url_params = None\<rparr>])"
  using make_graph_public_private_as_update [of mock_env None "Some 1" "[]"]
  by (simp add: update_graph_by_id by_id_request_def mock_simps mock_transport_def bind_err_def
        envelope_graph_def graph_of_json_def str_def str_nat.simps digit_char_def)

section \<open>Both a name and a graph id\<close>

text \<open>
  C8. When both \<^verbatim>\<open>name\<close> and \<^verbatim>\<open>graph_id\<close> are given, each of \<^verbatim>\<open>get_graph\<close>,
  \<^verbatim>\<open>delete_graph\<close>, \<^verbatim>\<open>update_graph\<close>, \<^verbatim>\<open>make_graph_public\<close> and
  \<^verbatim>\<open>make_graph_private\<close> does exactly what it does with the \<^verbatim>\<open>graph_id\<close> alone: the
  name is ignored, and the only request issued, with no lookup before it, goes to the path
  \<^verbatim>\<open>GRAPHS_PATH + str(graph_id)\<close>.
\<close>

theorem graph_id_takes_precedence:
  "get_graph c (Some name) (Some i) owner_email log = get_graph c None (Some i) None log
   \<and> delete_graph c (Some name) (Some i) log = delete_graph c None (Some i) log
   \<and> update_graph c graph (Some name) (Some i) owner_email log
       = update_graph c graph None (Some i) None log
   \<and> make_graph_public c (Some name) (Some i) log = make_graph_public c None (Some i) log
   \<and> make_graph_private c (Some name) (Some i) log = make_graph_private c None (Some i) log
   \<and> calls (get_graph c (Some name) (Some i) owner_email log) log
       = [\<lparr>req_method = GET, req_path = GRAPHS_PATH c @ str i, req_data = None,
           req_url_params = None\<rparr>]
   \<and> calls (delete_graph c (Some name) (Some i) log) log
       = [\<lparr>req_method = DELETE, req_path = GRAPHS_PATH c @ str i, req_data = None,
           req_url_params = None\<rparr>]
   \<and> calls (update_graph c graph (Some name) (Some i) owner_email log) log
       = [\<lparr>req_method = PUT, req_path = GRAPHS_PATH c @ str i, req_data = Some (json graph),
           req_url_params = None\<rparr>]
   \<and> calls (make_graph_public c (Some name) (Some i) log) log
       = [\<lparr>req_method = PUT, req_path = GRAPHS_PATH c @ str i,
           req_data = Some [(''is_public'', JInt 1)], req_url_params = None\<rparr>]
   \<and> calls (make_graph_private c (Some name) (Some i) log) log
       = [\<lparr>req_method = PUT, req_path = GRAPHS_PATH c @ str i,
           req_data = Some [(''is_public'', JInt 0)], req_url_params = None\<rparr>]"
  by (simp add: get_graph_by_id delete_graph_by_id update_graph_by_id make_graph_public_by_id
        make_graph_private_by_id by_id_request_def)

theorem graph_id_takes_precedence_witness:
  "delete_graph mock_env (Some ''zz'') (Some 65930) []
     = (Inr (JStr ''Successfully deleted graph''),
        [\<lparr>req_method = DELETE, req_path = ''/api/v1/graphs/65930'', req_data = None,
          req_url_params = None\<rparr>])
   \<and> delete_graph mock_env None (Some 65930) []
     = (Inr (JStr ''Successfully deleted graph''),
        [\<lparr>req_method = DELETE, req_path = ''/api/v1/graphs/65930'', req_data = None,
          req_url_params = None\<rparr>])"
  using graph_id_takes_precedence [of mock_env "''zz''" 65930 None "[]" "GSGraph []"]
  by (simp add: delete_graph_by_id by_id_request_def mock_simps mock_transport_def bind_err_def
        str_def str_nat.simps digit_char_def)

section \<open>The owner of a posted graph\<close>

text \<open>
  C9. For every graph object, \<^verbatim>\<open>post_graph\<close> issues one \<^verbatim>\<open>POST\<close> on the collection path
  whose payload is the object's \<^verbatim>\<open>json()\<close> with the field \<^verbatim>\<open>owner_email\<close> set to
  \<^verbatim>\<open>client.username\<close>, whatever \<^verbatim>\<open>owner_email\<close> the serialization held; every other
  field is passed through unchanged and no other field is added.
\<close>

theorem post_graph_sets_owner_email:
  "calls (post_graph c graph log) log
     = [\<lparr>req_method = POST, req_path = GRAPHS_PATH c,
         req_data = Some (AList.update ''owner_email'' (JStr (username c)) (json graph)),
         req_url_params = None\<rparr>]
   \<and> map_of (AList.update ''owner_email'' (JStr (username c)) (json graph)) ''owner_email''
       = Some (JStr (username c))
   \<and> (k \<noteq> ''owner_email'' \<longrightarrow>
        map_of (AList.update ''owner_email'' (JStr (username c)) (json graph)) k
          = map_of (json graph) k)
   \<and> fst ` set (AList.update ''owner_email'' (JStr (username c)) (json graph))
       = insert ''owner_email'' (fst ` set (json graph))"
  by (simp add: post_graph_eq update_conv' dom_update [unfolded dom_map_of_conv_image_fst]
        dom_map_of_conv_image_fst [symmetric])

theorem post_graph_sets_owner_email_witness:
  "''name'' \<noteq> ''owner_email''
   \<and> calls (post_graph mock_env
        (GSGraph [(''name'', JStr ''My Sample Graph''), (''owner_email'', JStr ''other@example.com''),
                  (''is_public'', JInt 0)]) []) []
     = [\<lparr>req_method = POST, req_path = ''/api/v1/graphs/'',
         req_data = Some [(''name'', JStr ''My Sample Graph''),
                          (''owner_email'', JStr ''user1@example.com''), (''is_public'', JInt 0)],
         req_url_params = None\<rparr>]
   \<and> map_of [(''name'', JStr ''My Sample Graph''), (''owner_email'', JStr ''user1@example.com''),
             (''is_public'', JInt 0)] ''name'' = Some (JStr ''My Sample Graph'')"
  using post_graph_sets_owner_email [of mock_env
      "GSGraph [(''name'', JStr ''My Sample Graph''), (''owner_email'', JStr ''other@example.com''),
                (''is_public'', JInt 0)]" "[]" "''name''"]
  by (simp add: mock_simps)

end
